theory Spec2Isabelle
  imports Complex_Main "HOL-Library.Log_Nat"
begin

section \<open>JavaScript numbers\<close>

text \<open>
  The program computes with JavaScript numbers, which are IEEE 754 doubles. A number is
  modelled by its value: \<open>NaN\<close>, one of the two infinities, or a finite double given as
  the rational it denotes (every finite double is a dyadic rational). Each arithmetic
  operation computes the exact rational result and rounds it with \<open>to_double\<close>, the
  round-to-nearest, ties-to-even rounding of binary64 (53 bits of precision, normal
  exponents from \<open>-1022\<close> to \<open>1023\<close>, subnormals below, overflow to infinity).

  The sign of zero is not represented: \<open>Finite 0\<close> stands for both zeros. The only
  operation of the program that can tell them apart is a division by zero, and every
  division of the modelled code divides by a non-zero constant, by a positive count, or by
  a square \<open>heightM * heightM\<close>, whose zero is the positive one; \<open>jdiv\<close> therefore reads
  a zero divisor as \<open>+0\<close>.
\<close>

datatype jsnum = NaN | NegInfinity | Finite rat | Infinity

definition ilog2 :: "rat \<Rightarrow> int" where
  \<comment> \<open>for \<open>a > 0\<close>, the binary exponent \<open>k\<close> with \<open>2^k \<le> a < 2^(k+1)\<close>\<close>
  "ilog2 a = (let k = bitlen (fst (quotient_of a)) - bitlen (snd (quotient_of a))
              in if 2 powi k \<le> a then k else k - 1)"

definition round_half_even :: "rat \<Rightarrow> int" where
  "round_half_even x =
     (let f = \<lfloor>x\<rfloor>; d = x - of_int f
      in if d < 1 / 2 then f
         else if 1 / 2 < d then f + 1
         else if even f then f else f + 1)"

definition to_double :: "rat \<Rightarrow> jsnum" where
  "to_double q =
     (if q = 0 then Finite 0
      else let a = \<bar>q\<bar>;
               e = max (ilog2 a) (- 1022);
               u = 2 powi (e - 52);
               r = of_int (round_half_even (a / u)) * u
           in if 2 powi 1024 \<le> r then (if 0 < q then Infinity else NegInfinity)
              else Finite (if 0 < q then r else - r))"

definition lit :: "rat \<Rightarrow> jsnum" where
  \<comment> \<open>a numeric literal of the source text denotes the double nearest to its decimal value\<close>
  "lit q = to_double q"

definition isNaN :: "jsnum \<Rightarrow> bool" where
  "isNaN x = (x = NaN)"

fun jneg :: "jsnum \<Rightarrow> jsnum" where
  "jneg NaN = NaN"
| "jneg NegInfinity = Infinity"
| "jneg Infinity = NegInfinity"
| "jneg (Finite a) = Finite (- a)"

fun jadd :: "jsnum \<Rightarrow> jsnum \<Rightarrow> jsnum" where
  "jadd NaN y = NaN"
| "jadd x NaN = NaN"
| "jadd Infinity NegInfinity = NaN"
| "jadd NegInfinity Infinity = NaN"
| "jadd Infinity y = Infinity"
| "jadd x Infinity = Infinity"
| "jadd NegInfinity y = NegInfinity"
| "jadd x NegInfinity = NegInfinity"
| "jadd (Finite a) (Finite b) = to_double (a + b)"

definition jsub :: "jsnum \<Rightarrow> jsnum \<Rightarrow> jsnum" where
  "jsub x y = jadd x (jneg y)"

fun jsign :: "jsnum \<Rightarrow> int" where
  "jsign NaN = 0"
| "jsign NegInfinity = - 1"
| "jsign Infinity = 1"
| "jsign (Finite a) = (if 0 < a then 1 else if a < 0 then - 1 else 0)"

definition signed_infinity :: "int \<Rightarrow> jsnum" where
  "signed_infinity s = (if s = 0 then NaN else if 0 < s then Infinity else NegInfinity)"

fun jmul :: "jsnum \<Rightarrow> jsnum \<Rightarrow> jsnum" where
  "jmul NaN y = NaN"
| "jmul x NaN = NaN"
| "jmul (Finite a) (Finite b) = to_double (a * b)"
| "jmul x y = signed_infinity (jsign x * jsign y)"

fun jdiv :: "jsnum \<Rightarrow> jsnum \<Rightarrow> jsnum" where
  "jdiv NaN y = NaN"
| "jdiv x NaN = NaN"
| "jdiv (Finite a) (Finite b) =
     (if b = 0 then signed_infinity (jsign (Finite a)) else to_double (a / b))"
| "jdiv (Finite a) y = Finite 0"
| "jdiv x (Finite b) = signed_infinity (jsign x * (if b < 0 then - 1 else 1))"
| "jdiv x y = NaN"

fun jlt :: "jsnum \<Rightarrow> jsnum \<Rightarrow> bool" where
  "jlt NaN y = False"
| "jlt x NaN = False"
| "jlt x NegInfinity = False"
| "jlt NegInfinity y = True"
| "jlt Infinity y = False"
| "jlt x Infinity = True"
| "jlt (Finite a) (Finite b) = (a < b)"

definition jgt :: "jsnum \<Rightarrow> jsnum \<Rightarrow> bool" where
  "jgt x y = jlt y x"

definition jge :: "jsnum \<Rightarrow> jsnum \<Rightarrow> bool" where
  \<comment> \<open>\<open>x >= y\<close>: false when either side is \<open>NaN\<close>, otherwise the negation of \<open>x < y\<close>\<close>
  "jge x y = (x \<noteq> NaN \<and> y \<noteq> NaN \<and> \<not> jlt x y)"

fun Math_round :: "jsnum \<Rightarrow> jsnum" where
  \<comment> \<open>\<open>Math.round\<close>: the nearest integer, a tie going up\<close>
  "Math_round (Finite a) = Finite (of_int \<lfloor>a + 1 / 2\<rfloor>)"
| "Math_round x = x"


section \<open>UnitConverter\<close>

definition LBS_TO_KG :: jsnum where
  "LBS_TO_KG = lit 0.453592"

definition INCHES_TO_CM :: jsnum where
  "INCHES_TO_CM = lit 2.54"

definition CM_TO_METERS :: jsnum where
  "CM_TO_METERS = lit 100"

definition poundsToKilograms :: "jsnum \<Rightarrow> jsnum" where
  "poundsToKilograms pounds = jmul pounds LBS_TO_KG"

definition feetInchesToCentimeters :: "jsnum \<Rightarrow> jsnum \<Rightarrow> jsnum" where
  "feetInchesToCentimeters feet inches =
     (let totalInches = jadd (jmul feet (lit 12)) inches
      in jmul totalInches INCHES_TO_CM)"

definition centimetersToMeters :: "jsnum \<Rightarrow> jsnum" where
  "centimetersToMeters centimeters = jdiv centimeters CM_TO_METERS"


section \<open>BMICalculator\<close>

definition determineBMICategory :: "jsnum \<Rightarrow> string" where
  "determineBMICategory bmi =
     (if jlt bmi (lit 18.5) then ''Underweight''
      else if jge bmi (lit 18.5) \<and> jlt bmi (lit 25.0) then ''Normal''
      else if jge bmi (lit 25.0) \<and> jlt bmi (lit 30.0) then ''Overweight''
      else ''Obese'')"

record bmi_result =
  bmi :: jsnum
  category :: string
  weightKg :: jsnum
  heightM :: jsnum

text \<open>
  \<open>calculateBMI(weight, weightUnit, height, heightUnit, heightInches = 0)\<close>. The four
  numeric arguments are numbers, as the form handler passes them after \<open>parseFloat\<close>;
  the default of \<open>heightInches\<close> is the caller's to supply.
\<close>

definition calculateBMI :: "jsnum \<Rightarrow> string \<Rightarrow> jsnum \<Rightarrow> string \<Rightarrow> jsnum \<Rightarrow> bmi_result" where
  "calculateBMI weight weightUnit height heightUnit heightInches =
     (let wKg = (if weightUnit = ''lbs'' then poundsToKilograms weight else weight);
          hM = (if heightUnit = ''ft''
                then centimetersToMeters (feetInchesToCentimeters height heightInches)
                else if heightUnit = ''cm'' then centimetersToMeters height
                else height);
          b = jdiv wKg (jmul hM hM);
          c = determineBMICategory b
      in \<lparr>bmi = jdiv (Math_round (jmul b (lit 10))) (lit 10), category = c,
           weightKg = wKg, heightM = hM\<rparr>)"


section \<open>CalorieEstimator\<close>

text \<open>
  \<open>_getActivityMultiplier\<close> reads \<open>multipliers[activityLevel]\<close> on an object literal.
  A property read that finds no own property goes on to the prototype, here
  \<open>Object.prototype\<close>, so the keys below find a built-in function (for \<open>__proto__\<close>,
  the prototype object itself) instead of \<open>undefined\<close>. The value read is therefore a
  number of the table, \<open>undefined\<close>, or such a built-in, named here by its key.
\<close>

datatype jsprop = Undefined | Num jsnum | Builtin string

definition Object_prototype_keys :: "string list" where
  "Object_prototype_keys =
     [''constructor'', ''hasOwnProperty'', ''isPrototypeOf'', ''propertyIsEnumerable'',
      ''toLocaleString'', ''toString'', ''valueOf'', ''__proto__'',
      ''__defineGetter__'', ''__defineSetter__'', ''__lookupGetter__'', ''__lookupSetter__'']"

definition get_property :: "(string \<times> jsnum) list \<Rightarrow> string \<Rightarrow> jsprop" where
  \<comment> \<open>\<open>obj[key]\<close> for an object literal \<open>obj\<close> with the listed own properties\<close>
  "get_property obj key =
     (case map_of obj key of
        Some v \<Rightarrow> Num v
      | None \<Rightarrow> if key \<in> set Object_prototype_keys then Builtin key else Undefined)"

fun truthy :: "jsprop \<Rightarrow> bool" where
  "truthy Undefined = False"
| "truthy (Num n) = (n \<noteq> NaN \<and> n \<noteq> Finite 0)"
| "truthy (Builtin k) = True"

fun ToNumber :: "jsprop \<Rightarrow> jsnum" where
  \<comment> \<open>the conversion \<open>*\<close> applies to an operand; a function or a plain object gives \<open>NaN\<close>\<close>
  "ToNumber Undefined = NaN"
| "ToNumber (Num n) = n"
| "ToNumber (Builtin k) = NaN"

definition calculateBMR :: "jsnum \<Rightarrow> string \<Rightarrow> jsnum \<Rightarrow> jsnum \<Rightarrow> jsnum" where
  "calculateBMR age gender wKg hCm =
     (let baseCalc = jsub (jadd (jmul (lit 10) wKg) (jmul (lit 6.25) hCm)) (jmul (lit 5) age)
      in if gender = ''male'' then jadd baseCalc (lit 5) else jsub baseCalc (lit 161))"

definition multipliers :: "(string \<times> jsnum) list" where
  "multipliers =
     [(''sedentary'', lit 1.2), (''lightly_active'', lit 1.375),
      (''moderately_active'', lit 1.55), (''very_active'', lit 1.725),
      (''extra_active'', lit 1.9)]"

definition getActivityMultiplier :: "string \<Rightarrow> jsprop" where
  \<comment> \<open>\<open>multipliers[activityLevel] || 1.2\<close>\<close>
  "getActivityMultiplier activityLevel =
     (let m = get_property multipliers activityLevel
      in if truthy m then m else Num (lit 1.2))"

record targets =
  maintenance :: jsnum
  weightLoss :: jsnum
  weightGain :: jsnum

record calorie_result = targets +
  bmr :: jsnum

definition calculateTargets :: "jsnum \<Rightarrow> jsprop \<Rightarrow> targets" where
  "calculateTargets b activityMultiplier =
     (let m = jmul b (ToNumber activityMultiplier)
      in \<lparr>maintenance = m, weightLoss = jsub m (lit 500), weightGain = jadd m (lit 500)\<rparr>)"

definition calculateCalories ::
  "jsnum \<Rightarrow> string \<Rightarrow> jsnum \<Rightarrow> string \<Rightarrow> jsnum \<Rightarrow> string \<Rightarrow> string \<Rightarrow> jsnum \<Rightarrow> calorie_result" where
  "calculateCalories age gender weight weightUnit height heightUnit activityLevel heightInches =
     (let wKg = (if weightUnit = ''lbs'' then poundsToKilograms weight else weight);
          hCm = (if heightUnit = ''ft'' then feetInchesToCentimeters height heightInches
                 else height);
          b = calculateBMR age gender wKg hCm;
          activityMultiplier = getActivityMultiplier activityLevel;
          t = calculateTargets b activityMultiplier
      in \<lparr>maintenance = Math_round (maintenance t),
           weightLoss = Math_round (weightLoss t),
           weightGain = Math_round (weightGain t),
           bmr = Math_round b\<rparr>)"


section \<open>Raw input values and the global parsing functions\<close>

text \<open>
  The validator and the planner take values of any type. The model has the primitive
  types; a string is a list of characters with codes below 256.
\<close>

datatype jsval = JUndefined | JNull | JBoolean bool | JNumber jsnum | JString string

definition is_whitespace :: "char \<Rightarrow> bool" where
  \<comment> \<open>white space and line terminators: TAB, LF, VT, FF, CR, SP, NBSP\<close>
  "is_whitespace c = ((of_char c :: nat) \<in> {9, 10, 11, 12, 13, 32, 160})"

definition is_digit :: "char \<Rightarrow> bool" where
  "is_digit c = (48 \<le> (of_char c :: nat) \<and> (of_char c :: nat) \<le> 57)"

definition is_hex_digit :: "char \<Rightarrow> bool" where
  "is_hex_digit c =
     (let n = (of_char c :: nat)
      in (48 \<le> n \<and> n \<le> 57) \<or> (65 \<le> n \<and> n \<le> 70) \<or> (97 \<le> n \<and> n \<le> 102))"

definition digit_val :: "char \<Rightarrow> nat" where
  "digit_val c =
     (let n = (of_char c :: nat)
      in if n \<le> 57 then n - 48 else if n \<le> 70 then n - 55 else n - 87)"

definition digits_val :: "nat \<Rightarrow> string \<Rightarrow> nat" where
  \<comment> \<open>the value of a string of digits in the given radix\<close>
  "digits_val radix ds = foldl (\<lambda>acc c. radix * acc + digit_val c) 0 ds"

definition trimStart :: "string \<Rightarrow> string" where
  "trimStart s = dropWhile is_whitespace s"

definition trim :: "string \<Rightarrow> string" where
  "trim s = rev (dropWhile is_whitespace (rev (dropWhile is_whitespace s)))"

definition lower_char :: "char \<Rightarrow> char" where
  "lower_char c =
     (let n = (of_char c :: nat)
      in if (65 \<le> n \<and> n \<le> 90) \<or> (192 \<le> n \<and> n \<le> 222 \<and> n \<noteq> 215)
         then char_of (n + 32) else c)"

definition toLowerCase :: "string \<Rightarrow> string" where
  "toLowerCase s = map lower_char s"

definition strip_sign :: "string \<Rightarrow> bool \<times> string" where
  "strip_sign s =
     (case s of
        [] \<Rightarrow> (False, [])
      | c # cs \<Rightarrow> if c = CHR ''-'' then (True, cs)
                 else if c = CHR ''+'' then (False, cs) else (False, s))"

definition fraction_part :: "string \<Rightarrow> string \<times> string" where
  \<comment> \<open>the digits after a decimal point, if the text starts with one, and the text left\<close>
  "fraction_part s =
     (case s of
        [] \<Rightarrow> ([], [])
      | c # cs \<Rightarrow> if c = CHR ''.'' then (takeWhile is_digit cs, dropWhile is_digit cs)
                 else ([], s))"

definition exponent_part :: "string \<Rightarrow> int" where
  \<comment> \<open>\<open>e\<close> or \<open>E\<close>, an optional sign and at least one digit; anything else is no exponent\<close>
  "exponent_part s =
     (case s of
        [] \<Rightarrow> 0
      | c # cs \<Rightarrow>
          if c = CHR ''e'' \<or> c = CHR ''E''
          then (let (neg, r) = strip_sign cs; ds = takeWhile is_digit r
                in if ds = [] then 0
                   else if neg then - int (digits_val 10 ds) else int (digits_val 10 ds))
          else 0)"

definition parseFloat_string :: "string \<Rightarrow> jsnum" where
  \<comment> \<open>the longest prefix of the trimmed text that is a decimal literal, as a double\<close>
  "parseFloat_string s =
     (let (neg, u) = strip_sign (trimStart s)
      in if take 8 u = ''Infinity'' then (if neg then NegInfinity else Infinity)
         else let ip = takeWhile is_digit u;
                  (fp, r) = fraction_part (dropWhile is_digit u)
              in if ip = [] \<and> fp = [] then NaN
                 else let m = of_nat (digits_val 10 ip)
                            + of_nat (digits_val 10 fp) / 10 ^ length fp;
                          v = m * 10 powi (exponent_part r)
                      in to_double (if neg then - v else v))"

definition parseInt_string :: "string \<Rightarrow> jsnum" where
  \<comment> \<open>\<open>parseInt\<close> with no radix: base 16 after \<open>0x\<close> or \<open>0X\<close>, base 10 otherwise\<close>
  "parseInt_string s =
     (let (neg, u) = strip_sign (trimStart s);
          hex = (take 2 u = ''0x'' \<or> take 2 u = ''0X'');
          z = (if hex then takeWhile is_hex_digit (drop 2 u) else takeWhile is_digit u);
          v = (of_nat (digits_val (if hex then 16 else 10) z) :: rat)
      in if z = [] then NaN else to_double (if neg then - v else v))"

definition ToString_primitive :: "jsval \<Rightarrow> string" where
  \<comment> \<open>\<open>ToString\<close> of the values that are neither a string nor a number\<close>
  "ToString_primitive v =
     (case v of
        JUndefined \<Rightarrow> ''undefined''
      | JNull \<Rightarrow> ''null''
      | JBoolean b \<Rightarrow> (if b then ''true'' else ''false'')
      | _ \<Rightarrow> [])"

text \<open>
  \<open>parseFloat\<close> and \<open>parseInt\<close> first convert their argument to a string. For a number
  argument that string is the shortest decimal that reads back as the same double, so
  \<open>parseFloat\<close> returns the number itself. \<open>parseInt\<close> reads the integer part of that
  string: for a magnitude from \<open>10^-6\<close> up to \<open>10^21\<close> the string is in plain decimal
  notation and its integer part is the number truncated towards zero. Outside that range
  the string is in exponent notation and depends on the digits chosen by
  \<open>Number::toString\<close>, which is a parameter \<open>toStr\<close> of the model.
\<close>

definition parseFloat :: "jsval \<Rightarrow> jsnum" where
  "parseFloat v =
     (case v of
        JString s \<Rightarrow> parseFloat_string s
      | JNumber n \<Rightarrow> n
      | _ \<Rightarrow> parseFloat_string (ToString_primitive v))"

definition parseInt_number :: "(rat \<Rightarrow> string) \<Rightarrow> jsnum \<Rightarrow> jsnum" where
  "parseInt_number toStr n =
     (case n of
        Finite q \<Rightarrow>
          if q = 0 then Finite 0
          else if 1 / 10 ^ 6 \<le> \<bar>q\<bar> \<and> \<bar>q\<bar> < 10 ^ 21
          then Finite (of_int (if 0 \<le> q then \<lfloor>q\<rfloor> else \<lceil>q\<rceil>))
          else parseInt_string (toStr q)
      | _ \<Rightarrow> NaN)"

definition parseInt :: "(rat \<Rightarrow> string) \<Rightarrow> jsval \<Rightarrow> jsnum" where
  "parseInt toStr v =
     (case v of
        JString s \<Rightarrow> parseInt_string s
      | JNumber n \<Rightarrow> parseInt_number toStr n
      | _ \<Rightarrow> parseInt_string (ToString_primitive v))"


section \<open>Validator\<close>

definition isPositiveNumber :: "jsval \<Rightarrow> bool" where
  "isPositiveNumber v = (let num = parseFloat v in \<not> isNaN num \<and> jgt num (lit 0))"

definition isNotEmpty :: "jsval \<Rightarrow> bool" where
  "isNotEmpty v = (case v of JString s \<Rightarrow> 0 < length (trim s) | _ \<Rightarrow> False)"


section \<open>WorkoutPlanner\<close>

text \<open>
  An exercise object has the fields written by \<open>addExercise\<close>; \<open>completedAt\<close> is read by
  the progress tracker only and is absent (\<open>None\<close>) on every object the planner creates.
  When present it holds the time value of \<open>new Date(exercise.completedAt)\<close>, which is
  \<open>NaN\<close> for an invalid date.
\<close>

record exercise =
  ex_id :: string
  name :: string
  sets :: jsnum
  reps :: jsnum
  completed :: bool
  addedAt :: string
  completedAt :: "jsnum option"

text \<open>
  The plan object: \<open>weeklyPlan\<close> maps a day key to its array of exercises, and
  \<open>lastModified\<close> is absent until the first change. Reading a day key that the stored
  object lacks gives \<open>undefined\<close>, and calling a method on it throws a \<open>TypeError\<close>.
\<close>

record plan =
  weeklyPlan :: "string \<rightharpoonup> exercise list"
  lastModified :: "string option"

datatype js_error = TypeError

datatype validation = Valid | Invalid string

datatype add_result = Failure string | Success exercise

definition days :: "string list" where
  "days = [''monday'', ''tuesday'', ''wednesday'', ''thursday'', ''friday'', ''saturday'',
           ''sunday'']"

definition validateExerciseInput :: "jsval \<Rightarrow> jsval \<Rightarrow> jsval \<Rightarrow> validation" where
  "validateExerciseInput exerciseName s r =
     (if \<not> isNotEmpty exerciseName then Invalid ''Please enter an exercise name''
      else if \<not> isPositiveNumber s then Invalid ''Sets must be a positive number''
      else if \<not> isPositiveNumber r then Invalid ''Reps must be a positive number''
      else Valid)"

text \<open>
  \<open>addExercise(day, exerciseName, sets, reps)\<close>. The day is a string, as documented and
  as the form passes it. What the method reads from its environment is a parameter:
  \<open>newId\<close> is the result of \<open>_generateExerciseId()\<close>, \<open>t1\<close> and \<open>t2\<close> are the two readings
  of the clock (\<open>addedAt\<close> and \<open>lastModified\<close>). Saving to storage and rendering do not
  change the plan held in memory and are left out. The result is the returned object and
  the plan afterwards, or the exception thrown.
\<close>

definition addExercise ::
  "(rat \<Rightarrow> string) \<Rightarrow> string \<Rightarrow> string \<Rightarrow> string \<Rightarrow> plan \<Rightarrow> string \<Rightarrow> jsval \<Rightarrow> jsval \<Rightarrow> jsval
     \<Rightarrow> js_error + (add_result \<times> plan)" where
  "addExercise toStr newId t1 t2 p day exerciseName s r =
     (case validateExerciseInput exerciseName s r of
        Invalid err \<Rightarrow> Inr (Failure err, p)
      | Valid \<Rightarrow>
          if toLowerCase day \<notin> set days
          then Inr (Failure ''Please select a valid day of the week'', p)
          else (case exerciseName of
                  JString nm \<Rightarrow>
                    (let e = \<lparr>ex_id = newId, name = trim nm, sets = parseInt toStr s,
                              reps = parseInt toStr r, completed = False, addedAt = t1,
                              completedAt = None\<rparr>
                     in case weeklyPlan p (toLowerCase day) of
                          None \<Rightarrow> Inl TypeError
                        | Some exercises \<Rightarrow>
                            Inr (Success e,
                                 p\<lparr>weeklyPlan := (weeklyPlan p)(toLowerCase day \<mapsto> exercises @ [e]),
                                   lastModified := Some t2\<rparr>))
                | _ \<Rightarrow> Inl TypeError))"

fun findIndex_from :: "int \<Rightarrow> ('a \<Rightarrow> bool) \<Rightarrow> 'a list \<Rightarrow> int" where
  "findIndex_from i P [] = - 1"
| "findIndex_from i P (x # xs) = (if P x then i else findIndex_from (i + 1) P xs)"

definition findIndex :: "('a \<Rightarrow> bool) \<Rightarrow> 'a list \<Rightarrow> int" where
  \<comment> \<open>\<open>Array.prototype.findIndex\<close>: the first index whose element satisfies \<open>P\<close>, or \<open>-1\<close>\<close>
  "findIndex P xs = findIndex_from 0 P xs"

definition splice_one :: "int \<Rightarrow> 'a list \<Rightarrow> 'a list" where
  \<comment> \<open>\<open>xs.splice(index, 1)\<close>: a negative index counts from the end\<close>
  "splice_one index xs =
     (let len = int (length xs);
          start = nat (if index < 0 then max (len + index) 0 else min index len)
      in take start xs @ drop (start + 1) xs)"

definition removeExercise :: "string \<Rightarrow> plan \<Rightarrow> string \<Rightarrow> string \<Rightarrow> js_error + (bool \<times> plan)" where
  "removeExercise t p day exerciseId =
     (let dayLower = toLowerCase day
      in if dayLower \<notin> set days then Inr (False, p)
         else case weeklyPlan p dayLower of
                None \<Rightarrow> Inl TypeError
              | Some exercises \<Rightarrow>
                  (let index = findIndex (\<lambda>ex. ex_id ex = exerciseId) exercises
                   in if index = - 1 then Inr (False, p)
                      else Inr (True,
                                p\<lparr>weeklyPlan := (weeklyPlan p)(dayLower \<mapsto> splice_one index exercises),
                                  lastModified := Some t\<rparr>)))"

fun toggle_found :: "string \<Rightarrow> exercise list \<Rightarrow> exercise list" where
  \<comment> \<open>\<open>exercise.completed = !exercise.completed\<close> on the object that \<open>find\<close> returned,
      the first one with the id; the array holds that object, so the array shows the change\<close>
  "toggle_found i [] = []"
| "toggle_found i (e # es) =
     (if ex_id e = i then e\<lparr>completed := \<not> completed e\<rparr> # es else e # toggle_found i es)"

definition toggleExerciseCompletion ::
  "string \<Rightarrow> plan \<Rightarrow> string \<Rightarrow> string \<Rightarrow> js_error + (bool \<times> plan)" where
  "toggleExerciseCompletion t p day exerciseId =
     (let dayLower = toLowerCase day
      in if dayLower \<notin> set days then Inr (False, p)
         else case weeklyPlan p dayLower of
                None \<Rightarrow> Inl TypeError
              | Some exercises \<Rightarrow>
                  (case find (\<lambda>ex. ex_id ex = exerciseId) exercises of
                     None \<Rightarrow> Inr (False, p)
                   | Some found \<Rightarrow>
                       Inr (True,
                            p\<lparr>weeklyPlan := (weeklyPlan p)(dayLower \<mapsto> toggle_found exerciseId exercises),
                              lastModified := Some t\<rparr>)))"

definition clearDay :: "string \<Rightarrow> plan \<Rightarrow> string \<Rightarrow> bool \<times> plan" where
  "clearDay t p day =
     (let dayLower = toLowerCase day
      in if dayLower \<notin> set days then (False, p)
         else (True, p\<lparr>weeklyPlan := (weeklyPlan p)(dayLower \<mapsto> []), lastModified := Some t\<rparr>))"


section \<open>Storage\<close>

text \<open>
  \<open>loadWorkoutPlan\<close> returns the stored plan, or the default of seven empty days when
  nothing is stored.
\<close>

definition loadWorkoutPlan :: "plan option \<Rightarrow> plan" where
  "loadWorkoutPlan stored =
     (case stored of
        Some p \<Rightarrow> p
      | None \<Rightarrow> \<lparr>weeklyPlan = [''monday'' \<mapsto> [], ''tuesday'' \<mapsto> [], ''wednesday'' \<mapsto> [],
                                ''thursday'' \<mapsto> [], ''friday'' \<mapsto> [], ''saturday'' \<mapsto> [],
                                ''sunday'' \<mapsto> []],
                  lastModified = None\<rparr>)"


section \<open>ProgressTracker\<close>

text \<open>
  \<open>_getWorkoutHistory\<close> walks the seven days of the plan that \<open>loadWorkoutPlan\<close>
  returned, here its argument, and their exercises, with four local variables (the record
  \<open>locals\<close>: \<open>totalWorkouts\<close>, \<open>completedWorkouts\<close>, \<open>currentWeekWorkouts\<close> and
  \<open>lastWorkoutDate\<close> of the source). The counters are natural numbers (they stay far
  below \<open>2^53\<close>, where doubles count exactly). The returned \<open>lastWorkoutDate\<close> is kept as
  the date found, \<open>None\<close> standing for the text \<open>N/A\<close>; its formatting is not modelled.
\<close>

record locals =
  total :: nat
  completedCount :: nat
  currentWeek :: nat
  lastDate :: "jsnum option"

record workout_history =
  totalWorkouts :: nat
  currentWeekWorkouts :: nat
  completionRate :: jsnum
  lastWorkoutDate :: "jsnum option"

definition visit_exercise :: "locals \<Rightarrow> exercise \<Rightarrow> locals" where
  "visit_exercise v e =
     (let v1 = v\<lparr>total := total v + 1\<rparr>
      in if completed e
         then (let v2 = v1\<lparr>completedCount := completedCount v1 + 1,
                            currentWeek := currentWeek v1 + 1\<rparr>
               in case completedAt e of
                    None \<Rightarrow> v2
                  | Some completedDate \<Rightarrow>
                      (case lastDate v2 of
                         None \<Rightarrow> v2\<lparr>lastDate := Some completedDate\<rparr>
                       | Some l \<Rightarrow> if jgt completedDate l
                                   then v2\<lparr>lastDate := Some completedDate\<rparr> else v2))
         else v1)"

definition day_exercises :: "plan \<Rightarrow> string \<Rightarrow> exercise list" where
  \<comment> \<open>\<open>workoutPlan.weeklyPlan[day] || []\<close>\<close>
  "day_exercises p day = (case weeklyPlan p day of None \<Rightarrow> [] | Some exercises \<Rightarrow> exercises)"

definition visit_day :: "plan \<Rightarrow> locals \<Rightarrow> string \<Rightarrow> locals" where
  "visit_day p v day = foldl visit_exercise v (day_exercises p day)"

definition getWorkoutHistory :: "plan \<Rightarrow> workout_history" where
  "getWorkoutHistory workoutPlan =
     (let v = foldl (visit_day workoutPlan)
                \<lparr>total = 0, completedCount = 0, currentWeek = 0, lastDate = None\<rparr>
                [''monday'', ''tuesday'', ''wednesday'', ''thursday'', ''friday'', ''saturday'',
                 ''sunday''];
          rate = (if 0 < total v
                  then jdiv (Finite (of_nat (completedCount v))) (Finite (of_nat (total v)))
                  else lit 0)
      in \<lparr>totalWorkouts = total v, currentWeekWorkouts = currentWeek v,
           completionRate = rate, lastWorkoutDate = lastDate v\<rparr>)"


section \<open>Sample data\<close>

text \<open>Two exercises, one completed and one not, for the worked examples below.\<close>

definition one_done :: exercise where
  "one_done = \<lparr>ex_id = ''a'', name = ''Squats'', sets = Finite 3, reps = Finite 10,
               completed = True, addedAt = ''t0'', completedAt = None\<rparr>"

definition one_open :: exercise where
  "one_open = \<lparr>ex_id = ''b'', name = ''Plank'', sets = Finite 2, reps = Finite 5,
               completed = False, addedAt = ''t0'', completedAt = None\<rparr>"


section \<open>Rounding to a double\<close>

lemma bitlen_powi:
  fixes p :: int
  assumes "0 < p"
  shows "(2::rat) powi (bitlen p - 1) \<le> of_int p" and "of_int p < (2::rat) powi (bitlen p)"
proof -
  have b: "2 ^ nat (bitlen p - 1) \<le> p" "p < 2 ^ nat (bitlen p)"
    using bitlen_bounds [OF assms] by auto
  have ge1: "1 \<le> bitlen p"
    using assms bitlen_eq_zero_iff [of p] bitlen_nonneg [of p] by linarith
  have "(of_int (2 ^ nat (bitlen p - 1)) :: rat) \<le> of_int p"
    using b(1) of_int_le_iff by blast
  then show "(2::rat) powi (bitlen p - 1) \<le> of_int p"
    using ge1 by (simp add: power_int_def)
  have "(of_int p :: rat) < of_int (2 ^ nat (bitlen p))"
    using b(2) of_int_less_iff by blast
  then show "of_int p < (2::rat) powi (bitlen p)"
    using ge1 by (simp add: power_int_def)
qed

lemma ilog2_bounds:
  assumes "0 < a"
  shows "2 powi (ilog2 a) \<le> a \<and> a < 2 powi (ilog2 a + 1)"
proof -
  obtain p d where pd: "quotient_of a = (p, d)" by (cases "quotient_of a")
  have dpos: "0 < d" using pd by (rule quotient_of_denom_pos)
  have a_eq: "a = of_int p / of_int d" using pd by (rule quotient_of_div)
  have ppos: "0 < p"
    using assms dpos a_eq by (simp add: zero_less_divide_iff)
  let ?k = "bitlen p - bitlen d"
  have up: "a < 2 powi (?k + 1)"
  proof -
    have "of_int p < (2::rat) powi (bitlen p)" using bitlen_powi(2) [OF ppos] .
    also have "(2::rat) powi (bitlen p) = 2 powi (?k + 1) * 2 powi (bitlen d - 1)"
      by (simp flip: power_int_add)
    also have "\<dots> \<le> 2 powi (?k + 1) * of_int d"
      using bitlen_powi(1) [OF dpos] by (intro mult_left_mono) auto
    finally show ?thesis using dpos by (simp add: a_eq pos_divide_less_eq)
  qed
  have lo: "2 powi (?k - 1) \<le> a"
  proof -
    have "(2::rat) powi (?k - 1) * of_int d \<le> 2 powi (?k - 1) * 2 powi (bitlen d)"
      using bitlen_powi(2) [OF dpos] by (intro mult_left_mono) auto
    also have "\<dots> = 2 powi (bitlen p - 1)"
      by (simp flip: power_int_add)
    also have "\<dots> \<le> of_int p" using bitlen_powi(1) [OF ppos] .
    finally show ?thesis using dpos by (simp add: a_eq pos_le_divide_eq)
  qed
  show ?thesis
  proof (cases "2 powi ?k \<le> a")
    case True
    then show ?thesis using up by (simp add: ilog2_def pd)
  next
    case False
    then show ?thesis using lo by (simp add: ilog2_def pd)
  qed
qed

lemma round_half_even_of_int: "round_half_even (of_int z) = z"
  by (simp add: round_half_even_def)

text \<open>
  A dyadic rational whose numerator fits in 53 bits and whose denominator is at most
  \<open>2^1074\<close> is a double, and rounding leaves it as it is.
\<close>

lemma to_double_dyadic:
  assumes q: "q = of_int m / 2 ^ n" and m: "\<bar>m\<bar> < 2 ^ 53" and n: "n \<le> 1074"
  shows "to_double q = Finite q"
proof (cases "q = 0")
  case True
  then show ?thesis by (simp add: to_double_def)
next
  case False
  define a where "a = \<bar>q\<bar>"
  have apos: "0 < a" using False by (simp add: a_def)
  have a_eq: "a = of_int \<bar>m\<bar> / 2 ^ n" by (simp add: a_def q)
  define k where "k = ilog2 a"
  have kb: "2 powi k \<le> a" "a < 2 powi (k + 1)"
    using ilog2_bounds [OF apos] by (auto simp: k_def)
  have "(of_int \<bar>m\<bar> :: rat) < of_int (2 ^ 53)" using m of_int_less_iff by blast
  then have "(of_int \<bar>m\<bar> :: rat) < 2 ^ 53" by simp
  then have "a < 2 ^ 53 / 2 ^ n" by (simp add: a_eq divide_strict_right_mono)
  also have "\<dots> = 2 powi (53 - int n)"
    by (simp add: power_int_diff)
  finally have alt: "a < 2 powi (53 - int n)" .
  have "k < 53 - int n"
  proof (rule ccontr)
    assume "\<not> k < 53 - int n"
    then have "(2::rat) powi (53 - int n) \<le> 2 powi k"
      by (intro power_int_increasing) auto
    then show False using alt kb(1) by simp
  qed
  define e where "e = max k (- 1022)"
  have e_le: "e \<le> 52 - int n" using \<open>k < 53 - int n\<close> n by (simp add: e_def)
  define s where "s = nat (52 - int n - e)"
  define u :: rat where "u = 2 powi (e - 52)"
  have upos: "0 < u" by (simp add: u_def)
  have "a / u = of_int \<bar>m\<bar> * (2 powi (- int n) / 2 powi (e - 52))"
    by (simp add: a_eq u_def power_int_minus field_simps)
  also have "2 powi (- int n) / 2 powi (e - 52) = (2::rat) powi (int s)"
  proof -
    have "- int n - (e - 52) = int s" using e_le by (simp add: s_def)
    then show ?thesis by (simp flip: power_int_diff)
  qed
  finally have au: "a / u = of_int (\<bar>m\<bar> * 2 ^ s)" by simp
  have r: "of_int (round_half_even (a / u)) * u = a"
    unfolding au round_half_even_of_int using au upos by (simp add: field_simps)
  have "(2::rat) powi (53 - int n) \<le> 2 powi 1024"
    by (intro power_int_increasing) auto
  then have small: "\<not> 2 powi 1024 \<le> a" using alt by simp
  have "to_double q = Finite (if 0 < q then a else - a)"
    using False r small
    by (simp add: to_double_def Let_def a_def [symmetric] k_def [symmetric]
        e_def [symmetric] u_def [symmetric])
  then show ?thesis by (simp add: a_def)
qed

lemma to_double_int:
  "\<bar>m\<bar> < 9007199254740992 \<Longrightarrow> to_double (of_int m) = Finite (of_int m)"
  using to_double_dyadic [of "of_int m" m 0] by simp

lemma to_double_half:
  "\<bar>m\<bar> < 9007199254740992 \<Longrightarrow> to_double (of_int m / 2) = Finite (of_int m / 2)"
  using to_double_dyadic [of "of_int m / 2" m 1] by simp

lemma lit_0 [simp]: "lit 0 = Finite 0"
  by (simp add: lit_def to_double_def)

lemma lit_10 [simp]: "lit 10 = Finite 10"
  using to_double_int [of 10] by (simp add: lit_def)

lemma lit_18_5 [simp]: "lit (37 / 2) = Finite (37 / 2)"
  using to_double_half [of 37] by (simp add: lit_def)

lemma lit_25 [simp]: "lit 25 = Finite 25"
  using to_double_int [of 25] by (simp add: lit_def)

lemma lit_30 [simp]: "lit 30 = Finite 30"
  using to_double_int [of 30] by (simp add: lit_def)


lemma to_double_0 [simp]: "to_double 0 = Finite 0"
  by (simp add: to_double_def)

lemma to_double_not_NaN [simp]: "to_double q \<noteq> NaN"
  by (simp add: to_double_def Let_def)

lemma round_half_even_ge_floor: "\<lfloor>x\<rfloor> \<le> round_half_even x"
  by (simp add: round_half_even_def Let_def)

lemma to_double_nonzero:
  assumes "1 \<le> \<bar>q\<bar>"
  shows "to_double q \<noteq> Finite 0"
proof -
  define a where "a = \<bar>q\<bar>"
  have apos: "0 < a" and a1: "1 \<le> a" using assms by (simp_all add: a_def)
  define k where "k = ilog2 a"
  have kb: "2 powi k \<le> a" "a < 2 powi (k + 1)"
    using ilog2_bounds [OF apos] by (auto simp: k_def)
  have "0 \<le> k"
  proof (rule ccontr)
    assume "\<not> 0 \<le> k"
    then have "(2::rat) powi (k + 1) \<le> 2 powi 0"
      by (intro power_int_increasing) auto
    then show False using kb(2) a1 by simp
  qed
  then have e: "max k (- 1022) = k" by simp
  define u :: rat where "u = 2 powi (k - 52)"
  have upos: "0 < u" by (simp add: u_def)
  have "(2::rat) powi 52 = 2 powi k / u" by (simp add: u_def flip: power_int_diff)
  also have "\<dots> \<le> a / u" using kb(1) upos by (simp add: divide_right_mono)
  finally have "(1::rat) \<le> a / u" by simp
  then have "1 \<le> \<lfloor>a / u\<rfloor>" by (simp add: le_floor_iff)
  then have "1 \<le> round_half_even (a / u)"
    using round_half_even_ge_floor [of "a / u"] by linarith
  then have "(0::rat) < of_int (round_half_even (a / u))" by simp
  then have rne: "round_half_even (a / u) \<noteq> 0" and une: "u \<noteq> 0"
    using upos by simp_all
  have "q \<noteq> 0" using assms by auto
  then show ?thesis
    using rne une
    by (simp add: to_double_def Let_def a_def [symmetric] k_def [symmetric] e
        u_def [symmetric])
qed

lemma to_double_numeral:
  "numeral n < (9007199254740992 :: int) \<Longrightarrow> to_double (numeral n) = Finite (numeral n)"
  using to_double_int [of "numeral n"] by simp

lemma to_double_numeral_half:
  "numeral n < (9007199254740992 :: int) \<Longrightarrow> to_double (numeral n / 2) = Finite (numeral n / 2)"
  using to_double_half [of "numeral n"] by simp


section \<open>BMI classification\<close>

lemma determineBMICategory_Finite:
  "determineBMICategory (Finite r) =
     (if r < 18.5 then ''Underweight'' else if r < 25 then ''Normal''
      else if r < 30 then ''Overweight'' else ''Obese'')"
  by (simp add: determineBMICategory_def jge_def)

lemma determineBMICategory_special:
  "determineBMICategory NaN = ''Obese''"
  "determineBMICategory Infinity = ''Obese''"
  "determineBMICategory NegInfinity = ''Underweight''"
  by (simp_all add: determineBMICategory_def jge_def)

text \<open>
  C2, as stated, at the value \<open>NaN\<close> (which \<open>calculateBMI\<close> computes for a weight and a
  height of zero): the category is \<open>Obese\<close> although \<open>NaN >= 30.0\<close> is false, so
  "Obese iff bmi \<ge> 30.0" does not hold for every bmi value.
\<close>

theorem C2_counterexample_NaN:
  "\<not> (determineBMICategory NaN = ''Obese'' \<longleftrightarrow> jge NaN (lit 30.0))"
  by (simp add: determineBMICategory_special jge_def)

text \<open>
  C2 (amended): for every bmi value, the category is Underweight iff \<open>bmi < 18.5\<close>,
  Normal iff \<open>18.5 \<le> bmi < 25.0\<close>, Overweight iff \<open>25.0 \<le> bmi < 30.0\<close>, and Obese
  iff \<open>bmi \<ge> 30.0\<close> or bmi is \<open>NaN\<close> (the final branch catches the value that no
  comparison holds for); in particular 18.5 yields Normal, 25.0 yields Overweight and
  30.0 yields Obese.
\<close>

theorem C2_bmi_category_intervals:
  "(determineBMICategory x = ''Underweight'' \<longleftrightarrow> jlt x (lit 18.5))
   \<and> (determineBMICategory x = ''Normal'' \<longleftrightarrow> jge x (lit 18.5) \<and> jlt x (lit 25.0))
   \<and> (determineBMICategory x = ''Overweight'' \<longleftrightarrow> jge x (lit 25.0) \<and> jlt x (lit 30.0))
   \<and> (determineBMICategory x = ''Obese'' \<longleftrightarrow> jge x (lit 30.0) \<or> x = NaN)
   \<and> determineBMICategory (lit 18.5) = ''Normal''
   \<and> determineBMICategory (lit 25.0) = ''Overweight''
   \<and> determineBMICategory (lit 30.0) = ''Obese''"
proof (cases x)
  case NaN
  then show ?thesis by (simp add: determineBMICategory_def jge_def)
next
  case NegInfinity
  then show ?thesis by (simp add: determineBMICategory_def jge_def)
next
  case (Finite r)
  then show ?thesis by (simp add: determineBMICategory_def jge_def)
next
  case Infinity
  then show ?thesis by (simp add: determineBMICategory_def jge_def)
qed

theorem C2_bmi_category_intervals_witness:
  "determineBMICategory (Finite 22) = ''Normal''
   \<and> jge (Finite 22) (lit 18.5) \<and> jlt (Finite 22) (lit 25.0)
   \<and> determineBMICategory NaN = ''Obese'' \<and> \<not> jge NaN (lit 30.0)
   \<and> determineBMICategory NaN \<noteq> ''Underweight'' \<and> \<not> jlt NaN (lit 18.5)
   \<and> determineBMICategory (lit 30.0) = ''Obese''"
  using C2_bmi_category_intervals [of "Finite 22"] C2_bmi_category_intervals [of NaN]
  by (simp add: jge_def)

text \<open>
  C10: the classification is total with Obese as the catch-all. For every value the
  result is one of the four categories, and a value that satisfies none of the three
  comparisons \<open>bmi < 18.5\<close>, \<open>18.5 \<le> bmi < 25.0\<close>, \<open>25.0 \<le> bmi < 30.0\<close> is Obese:
  so are \<open>NaN\<close> and \<open>Infinity\<close>, which is what \<open>calculateBMI\<close> computes for a height of
  zero and a weight that is not negative.
\<close>

theorem C10_bmi_category_total:
  "determineBMICategory x \<in> {''Underweight'', ''Normal'', ''Overweight'', ''Obese''}
   \<and> (\<not> jlt x (lit 18.5) \<and> \<not> (jge x (lit 18.5) \<and> jlt x (lit 25.0))
        \<and> \<not> (jge x (lit 25.0) \<and> jlt x (lit 30.0))
      \<longrightarrow> determineBMICategory x = ''Obese'')
   \<and> determineBMICategory NaN = ''Obese''
   \<and> determineBMICategory Infinity = ''Obese''
   \<and> (\<not> jlt w (lit 0) \<longrightarrow>
        category (calculateBMI w ''kg'' (lit 0) ''m'' i) = ''Obese''
        \<and> category (calculateBMI w ''kg'' (lit 0) ''cm'' i) = ''Obese'')"
proof -
  have zero_cm: "centimetersToMeters (Finite 0) = Finite 0"
    using to_double_int [of 100]
    by (simp add: centimetersToMeters_def CM_TO_METERS_def lit_def)
  have sq: "jmul (Finite 0) (Finite 0) = Finite 0"
    by simp
  have div0: "\<not> jlt w (Finite 0) \<Longrightarrow> jdiv w (Finite 0) = NaN \<or> jdiv w (Finite 0) = Infinity"
    by (cases w) (auto simp: signed_infinity_def)
  have "\<not> jlt w (lit 0) \<Longrightarrow> determineBMICategory (jdiv w (Finite 0)) = ''Obese''"
    using div0 by (auto simp: determineBMICategory_special)
  then have zero_height: "\<not> jlt w (lit 0) \<longrightarrow>
        category (calculateBMI w ''kg'' (lit 0) ''m'' i) = ''Obese''
        \<and> category (calculateBMI w ''kg'' (lit 0) ''cm'' i) = ''Obese''"
    by (simp add: calculateBMI_def Let_def zero_cm sq)
  have "determineBMICategory x \<in> {''Underweight'', ''Normal'', ''Overweight'', ''Obese''}"
    by (simp add: determineBMICategory_def)
  moreover have "\<not> jlt x (lit 18.5) \<and> \<not> (jge x (lit 18.5) \<and> jlt x (lit 25.0))
        \<and> \<not> (jge x (lit 25.0) \<and> jlt x (lit 30.0))
      \<longrightarrow> determineBMICategory x = ''Obese''"
    by (simp add: determineBMICategory_def)
  ultimately show ?thesis
    using zero_height by (simp add: determineBMICategory_special)
qed

theorem C10_bmi_category_total_witness:
  "\<not> jlt NaN (lit 18.5) \<and> determineBMICategory NaN = ''Obese''
   \<and> \<not> jlt (Finite 70) (lit 0)
   \<and> category (calculateBMI (Finite 70) ''kg'' (lit 0) ''m'' (Finite 0)) = ''Obese''"
  using C10_bmi_category_total [of NaN "Finite 70" "Finite 0"] by simp


section \<open>Calories\<close>

lemma lit_6_25: "lit (25 / 4) = Finite (25 / 4)"
  using to_double_dyadic [of "25 / 4" 25 2] by (simp add: lit_def)

lemma scenario_bmr:
  "calculateBMR (Finite 30) ''male'' (Finite 70) (Finite 170) = Finite (3235 / 2)"
  by (simp add: calculateBMR_def jsub_def lit_def [of 10] lit_def [of 5] lit_6_25
      to_double_numeral to_double_numeral_half)

text \<open>
  C3: the returned \<open>bmr\<close> is the Mifflin-St Jeor value
  \<open>10 * weightKg + 6.25 * heightCm - 5 * age\<close>, plus 5 for the gender \<open>male\<close> and minus
  161 for every other gender, rounded to the nearest integer; the rounding happens at the
  output only (the maintenance value is computed from the unrounded BMR); for age 30,
  male, 70 kg, 170 cm the BMR is 1617.5 and the returned \<open>bmr\<close> is 1618.
\<close>

theorem C3_bmr_mifflin_st_jeor:
  "bmr (calculateCalories age gender weight weightUnit height heightUnit activityLevel heightInches) =
     (let wKg = (if weightUnit = ''lbs'' then poundsToKilograms weight else weight);
          hCm = (if heightUnit = ''ft'' then feetInchesToCentimeters height heightInches
                 else height);
          base = jsub (jadd (jmul (lit 10) wKg) (jmul (lit 6.25) hCm)) (jmul (lit 5) age)
      in Math_round (if gender = ''male'' then jadd base (lit 5) else jsub base (lit 161)))
   \<and> maintenance (calculateCalories age gender weight ''kg'' height ''cm'' activityLevel heightInches) =
       Math_round (jmul (calculateBMR age gender weight height)
                        (ToNumber (getActivityMultiplier activityLevel)))
   \<and> calculateBMR (Finite 30) ''male'' (Finite 70) (Finite 170) = Finite 1617.5
   \<and> bmr (calculateCalories (Finite 30) ''male'' (Finite 70) ''kg'' (Finite 170) ''cm''
            activityLevel heightInches) = Finite 1618"
proof -
  have "Math_round (Finite (3235 / 2)) = Finite 1618" by simp
  then show ?thesis
    by (simp add: calculateCalories_def calculateTargets_def Let_def scenario_bmr)
      (simp add: calculateBMR_def Let_def)
qed

text \<open>
  C8 at the activity level \<open>constructor\<close>: the lookup finds the function that every
  object inherits under that key, which is truthy, so it is returned in place of 1.2,
  and the maintenance value computed from it is \<open>NaN\<close>.
\<close>

theorem C8_activity_multiplier_inherited_key:
  "getActivityMultiplier ''constructor'' = Builtin ''constructor''
   \<and> getActivityMultiplier ''constructor'' \<noteq> Num (lit 1.2)
   \<and> maintenance (calculateCalories (Finite 30) ''male'' (Finite 70) ''kg'' (Finite 170) ''cm''
        ''constructor'' (Finite 0)) = NaN"
proof -
  have g: "getActivityMultiplier ''constructor'' = Builtin ''constructor''"
    by (simp add: getActivityMultiplier_def get_property_def multipliers_def
        Object_prototype_keys_def)
  show ?thesis
    by (simp add: g calculateCalories_def calculateTargets_def Let_def scenario_bmr)
qed

text \<open>
  The five keys of the table give their multipliers, and a key that is neither in the
  table nor a property of \<open>Object.prototype\<close> gives 1.2.
\<close>

lemma getActivityMultiplier_table:
  "getActivityMultiplier ''sedentary'' = Num (lit 1.2)"
  "getActivityMultiplier ''lightly_active'' = Num (lit 1.375)"
  "getActivityMultiplier ''moderately_active'' = Num (lit 1.55)"
  "getActivityMultiplier ''very_active'' = Num (lit 1.725)"
  "getActivityMultiplier ''extra_active'' = Num (lit 1.9)"
  by (simp_all add: getActivityMultiplier_def get_property_def multipliers_def lit_def
      to_double_nonzero)

lemma getActivityMultiplier_default:
  assumes "k \<notin> fst ` set multipliers" and "k \<notin> set Object_prototype_keys"
  shows "getActivityMultiplier k = Num (lit 1.2)"
proof -
  have "map_of multipliers k = None" using assms(1) by (simp add: map_of_eq_None_iff)
  then show ?thesis using assms(2) by (simp add: getActivityMultiplier_def get_property_def)
qed


section \<open>Lists of exercises\<close>

lemma foldl_visit_exercise:
  "total (foldl visit_exercise v xs) = total v + length xs"
  "completedCount (foldl visit_exercise v xs) = completedCount v + length (filter completed xs)"
  "currentWeek (foldl visit_exercise v xs) = currentWeek v + length (filter completed xs)"
  by (induction xs arbitrary: v; simp add: visit_exercise_def Let_def split: option.splits)+

lemma foldl_visit_day:
  "total (foldl (visit_day p) v ds) = total v + length (concat (map (day_exercises p) ds))"
  "completedCount (foldl (visit_day p) v ds) =
     completedCount v + length (filter completed (concat (map (day_exercises p) ds)))"
  "currentWeek (foldl (visit_day p) v ds) =
     currentWeek v + length (filter completed (concat (map (day_exercises p) ds)))"
  by (induction ds arbitrary: v; simp add: visit_day_def foldl_visit_exercise)+

lemma toggle_found_twice: "toggle_found i (toggle_found i xs) = xs"
  by (induction xs) auto

lemma find_toggle_found:
  "find (\<lambda>e. ex_id e = i) (toggle_found i xs) =
     map_option (\<lambda>e. e\<lparr>completed := \<not> completed e\<rparr>) (find (\<lambda>e. ex_id e = i) xs)"
  by (induction xs) auto

lemma find_present:
  "i \<in> ex_id ` set xs \<Longrightarrow> \<exists>e. find (\<lambda>e. ex_id e = i) xs = Some e"
  by (induction xs) auto

lemma findIndex_from_absent:
  "\<forall>x \<in> set xs. \<not> P x \<Longrightarrow> findIndex_from n P xs = - 1"
  by (induction xs arbitrary: n) auto

lemma findIndex_from_present:
  "\<exists>x \<in> set xs. P x \<Longrightarrow>
     \<exists>k < length xs. findIndex_from n P xs = n + int k \<and> P (xs ! k) \<and> (\<forall>j < k. \<not> P (xs ! j))"
proof (induction xs arbitrary: n)
  case Nil
  then show ?case by simp
next
  case (Cons x xs)
  show ?case
  proof (cases "P x")
    case True
    then show ?thesis by (intro exI [of _ 0]) simp
  next
    case False
    with Cons.prems have "\<exists>y \<in> set xs. P y" by simp
    from Cons.IH [OF this, of "n + 1"] obtain k where k: "k < length xs"
      "findIndex_from (n + 1) P xs = n + 1 + int k" "P (xs ! k)" "\<forall>j < k. \<not> P (xs ! j)"
      by blast
    have "\<forall>j < Suc k. \<not> P ((x # xs) ! j)"
      using False k(4) by (auto simp: nth_Cons split: nat.splits)
    with False k show ?thesis by (intro exI [of _ "Suc k"]) simp
  qed
qed

lemma splice_one_nat: "k < length xs \<Longrightarrow> splice_one (int k) xs = take k xs @ drop (Suc k) xs"
  by (simp add: splice_one_def Let_def)

lemma days_lower: "d \<in> set days \<Longrightarrow> toLowerCase d = d"
  by (auto simp: days_def toLowerCase_def lower_char_def Let_def)

lemma parse_defs:
  "parseFloat_string ''0.5'' = Finite (1 / 2)"
  "parseFloat_string ''10'' = Finite 10"
  "parseInt_string ''0.5'' = Finite 0"
  "parseInt_string ''10'' = Finite 10"
  using to_double_half [of 1] to_double_int [of 10]
  by (simp_all add: parseFloat_string_def parseInt_string_def trimStart_def strip_sign_def
      is_whitespace_def is_digit_def fraction_part_def exponent_part_def digits_val_def
      digit_val_def Let_def)


section \<open>Workout statistics\<close>

text \<open>
  C4: for every plan, \<open>currentWeekWorkouts\<close> is the number of exercises, over the seven
  days, whose \<open>completed\<close> flag is true; no exercise is left out for its date.
\<close>

theorem C4_current_week_is_completed_count:
  "currentWeekWorkouts (getWorkoutHistory p) =
     length (filter completed (concat (map (day_exercises p) days)))
   \<and> totalWorkouts (getWorkoutHistory p) = length (concat (map (day_exercises p) days))"
proof -
  have d: "[''monday'', ''tuesday'', ''wednesday'', ''thursday'', ''friday'', ''saturday'',
            ''sunday''] = days"
    by (simp add: days_def)
  show ?thesis
    unfolding getWorkoutHistory_def d by (simp add: Let_def foldl_visit_day)
qed

text \<open>
  C9: when the plan has at least one exercise, \<open>completionRate\<close> is the number of
  completed exercises divided by the number of exercises (a double division, which never
  gives \<open>NaN\<close> for a positive divisor); when all seven days are empty it is exactly 0.
\<close>

theorem C9_completion_rate:
  "(0 < length (concat (map (day_exercises p) days)) \<longrightarrow>
      completionRate (getWorkoutHistory p) =
        jdiv (Finite (of_nat (length (filter completed (concat (map (day_exercises p) days))))))
             (Finite (of_nat (length (concat (map (day_exercises p) days)))))
      \<and> completionRate (getWorkoutHistory p) \<noteq> NaN)
   \<and> ((\<forall>d \<in> set days. day_exercises p d = []) \<longrightarrow>
      completionRate (getWorkoutHistory p) = Finite 0)"
proof -
  have d: "[''monday'', ''tuesday'', ''wednesday'', ''thursday'', ''friday'', ''saturday'',
            ''sunday''] = days"
    by (simp add: days_def)
  have empty: "(\<forall>d \<in> set days. day_exercises p d = []) \<Longrightarrow>
      length (concat (map (day_exercises p) days)) = 0"
    by simp
  show ?thesis
    unfolding getWorkoutHistory_def d using empty
    by (auto simp: Let_def foldl_visit_day)
qed

theorem C9_completion_rate_witness:
  "completionRate (getWorkoutHistory (loadWorkoutPlan None)) = Finite 0
   \<and> completionRate (getWorkoutHistory
        ((loadWorkoutPlan None)\<lparr>weeklyPlan := (weeklyPlan (loadWorkoutPlan None))
            (''monday'' \<mapsto> [one_done, one_open])\<rparr>)) = Finite (1 / 2)"
proof -
  let ?p0 = "loadWorkoutPlan None"
  let ?p1 = "?p0\<lparr>weeklyPlan := (weeklyPlan ?p0)(''monday'' \<mapsto> [one_done, one_open])\<rparr>"
  have e0: "\<forall>d \<in> set days. day_exercises ?p0 d = []"
    by (simp add: days_def day_exercises_def loadWorkoutPlan_def)
  have c1: "concat (map (day_exercises ?p1) days) = [one_done, one_open]"
    by (simp add: days_def day_exercises_def loadWorkoutPlan_def)
  have half: "jdiv (Finite 1) (Finite 2) = Finite (1 / 2)"
    using to_double_half [of 1] by simp
  have pos: "0 < length (concat (map (day_exercises ?p1) days))"
    by (simp add: c1)
  have r0: "completionRate (getWorkoutHistory ?p0) = Finite 0"
    using C9_completion_rate [of ?p0] e0 by blast
  have "completionRate (getWorkoutHistory ?p1) =
      jdiv (Finite (of_nat (length (filter completed (concat (map (day_exercises ?p1) days))))))
           (Finite (of_nat (length (concat (map (day_exercises ?p1) days)))))"
    using C9_completion_rate [of ?p1] pos by blast
  also have "\<dots> = Finite (1 / 2)"
    unfolding c1 using half by (simp add: one_done_def one_open_def)
  finally show ?thesis using r0 by simp
qed


section \<open>Operations on the plan\<close>

text \<open>
  C1 at the input \<open>sets = "0.5"\<close>, which the form can submit: the validation accepts
  it (\<open>parseFloat\<close> reads 0.5, a positive number) and the exercise is stored with
  \<open>sets = parseInt("0.5") = 0\<close>, which is not positive.
\<close>

theorem C1_fractional_sets_stored_as_zero:
  "isNotEmpty (JString ''Plank'') \<and> isPositiveNumber (JString ''0.5'')
   \<and> isPositiveNumber (JString ''10'')
   \<and> (\<exists>e p'. addExercise toStr newId t1 t2 (loadWorkoutPlan None) ''monday''
                (JString ''Plank'') (JString ''0.5'') (JString ''10'') = Inr (Success e, p')
          \<and> weeklyPlan p' ''monday'' = Some [e]
          \<and> sets e = Finite 0 \<and> \<not> jgt (sets e) (lit 0))"
proof -
  have n: "isNotEmpty (JString ''Plank'')"
    by (simp add: isNotEmpty_def trim_def is_whitespace_def)
  have t: "trim ''Plank'' = ''Plank''"
    by (simp add: trim_def is_whitespace_def)
  have s: "isPositiveNumber (JString ''0.5'')"
    by (simp add: isPositiveNumber_def parseFloat_def parse_defs isNaN_def jgt_def)
  have r: "isPositiveNumber (JString ''10'')"
    by (simp add: isPositiveNumber_def parseFloat_def parse_defs isNaN_def jgt_def)
  have d: "toLowerCase ''monday'' = ''monday''" "''monday'' \<in> set days"
    by (simp_all add: days_lower days_def)
  have m: "weeklyPlan (loadWorkoutPlan None) ''monday'' = Some []"
    by (simp add: loadWorkoutPlan_def)
  show ?thesis
    using n s r
    by (simp add: addExercise_def validateExerciseInput_def d m t parseInt_def parse_defs
        jgt_def Let_def)
qed

text \<open>
  C5: for a valid day whose array holds an exercise with the given id, two calls of
  \<open>toggleExerciseCompletion\<close> with the same day and id both return true; the first
  flips the \<open>completed\<close> flag of the first exercise with that id, and the second
  restores it, so that the day's array, and the whole week, is as it was.
\<close>

theorem C5_toggle_twice_restores:
  assumes "toLowerCase day \<in> set days"
    and "weeklyPlan p (toLowerCase day) = Some xs"
    and "i \<in> ex_id ` set xs"
  shows "\<exists>p1 p2. toggleExerciseCompletion t1 p day i = Inr (True, p1)
      \<and> toggleExerciseCompletion t2 p1 day i = Inr (True, p2)
      \<and> map_option completed (find (\<lambda>e. ex_id e = i) (day_exercises p1 (toLowerCase day))) =
          map_option (\<lambda>e. \<not> completed e) (find (\<lambda>e. ex_id e = i) xs)
      \<and> day_exercises p2 (toLowerCase day) = xs
      \<and> weeklyPlan p2 = weeklyPlan p"
proof -
  let ?d = "toLowerCase day"
  let ?p1 = "p\<lparr>weeklyPlan := (weeklyPlan p)(?d \<mapsto> toggle_found i xs), lastModified := Some t1\<rparr>"
  let ?p2 = "?p1\<lparr>weeklyPlan := (weeklyPlan ?p1)(?d \<mapsto> toggle_found i (toggle_found i xs)),
                 lastModified := Some t2\<rparr>"
  obtain e where e: "find (\<lambda>e. ex_id e = i) xs = Some e"
    using find_present [OF assms(3)] by blast
  have first: "toggleExerciseCompletion t1 p day i = Inr (True, ?p1)"
    using assms(1,2) e by (simp add: toggleExerciseCompletion_def Let_def)
  have e': "find (\<lambda>e. ex_id e = i) (toggle_found i xs) = Some (e\<lparr>completed := \<not> completed e\<rparr>)"
    by (simp add: find_toggle_found e)
  have second: "toggleExerciseCompletion t2 ?p1 day i = Inr (True, ?p2)"
    using assms(1) e' by (simp add: toggleExerciseCompletion_def Let_def)
  have flipped: "map_option completed (find (\<lambda>e. ex_id e = i) (day_exercises ?p1 ?d)) =
      map_option (\<lambda>e. \<not> completed e) (find (\<lambda>e. ex_id e = i) xs)"
    by (simp add: day_exercises_def e e')
  have restored: "day_exercises ?p2 ?d = xs"
    by (simp add: day_exercises_def toggle_found_twice)
  have same: "weeklyPlan ?p2 = weeklyPlan p"
    using assms(2) by (simp add: toggle_found_twice map_upd_triv)
  show ?thesis
    using first second flipped restored same by blast
qed

theorem C5_toggle_twice_restores_witness:
  "toLowerCase ''Monday'' \<in> set days
   \<and> (\<exists>p1 p2.
        toggleExerciseCompletion ''t1''
          ((loadWorkoutPlan None)\<lparr>weeklyPlan := (weeklyPlan (loadWorkoutPlan None))
              (''monday'' \<mapsto> [one_open])\<rparr>) ''Monday'' ''b'' = Inr (True, p1)
        \<and> toggleExerciseCompletion ''t2'' p1 ''Monday'' ''b'' = Inr (True, p2)
        \<and> day_exercises p1 ''monday'' = [one_open\<lparr>completed := True\<rparr>]
        \<and> day_exercises p2 ''monday'' = [one_open])"
proof -
  let ?p = "(loadWorkoutPlan None)\<lparr>weeklyPlan := (weeklyPlan (loadWorkoutPlan None))
              (''monday'' \<mapsto> [one_open])\<rparr>"
  have l: "toLowerCase ''Monday'' = ''monday''"
    by code_simp
  have d: "toLowerCase ''Monday'' \<in> set days"
    by (simp add: l days_def)
  have w: "weeklyPlan ?p (toLowerCase ''Monday'') = Some [one_open]"
    by (simp add: l)
  have i: "''b'' \<in> ex_id ` set [one_open]"
    by (simp add: one_open_def)
  obtain p1 p2 where r:
    "toggleExerciseCompletion ''t1'' ?p ''Monday'' ''b'' = Inr (True, p1)"
    "toggleExerciseCompletion ''t2'' p1 ''Monday'' ''b'' = Inr (True, p2)"
    "day_exercises p2 (toLowerCase ''Monday'') = [one_open]"
    using C5_toggle_twice_restores [OF d w i, of "''t1''" "''t2''"] by blast
  have "p1 = ?p\<lparr>weeklyPlan := (weeklyPlan ?p)(''monday'' \<mapsto> [one_open\<lparr>completed := True\<rparr>]),
                  lastModified := Some ''t1''\<rparr>"
    using r(1) d by (simp add: toggleExerciseCompletion_def Let_def l one_open_def)
  then have "day_exercises p1 ''monday'' = [one_open\<lparr>completed := True\<rparr>]"
    by (simp add: day_exercises_def)
  then show ?thesis
    using d r by (auto simp: l)
qed

text \<open>
  C6: \<open>removeExercise\<close> returns false and leaves the plan as it is when the day is
  not one of the seven names or when no exercise of that day has the id; when the id is
  present it returns true and removes one entry, the first with that id, leaving the
  other entries, their order and the other days as they were.
\<close>

theorem C6_remove_exercise:
  "(toLowerCase day \<notin> set days \<longrightarrow> removeExercise t p day i = Inr (False, p))
   \<and> (toLowerCase day \<in> set days \<and> weeklyPlan p (toLowerCase day) = Some xs
        \<and> i \<notin> ex_id ` set xs
      \<longrightarrow> removeExercise t p day i = Inr (False, p))
   \<and> (toLowerCase day \<in> set days \<and> weeklyPlan p (toLowerCase day) = Some xs
        \<and> i \<in> ex_id ` set xs
      \<longrightarrow> (\<exists>k < length xs. ex_id (xs ! k) = i \<and> (\<forall>j < k. ex_id (xs ! j) \<noteq> i)
            \<and> removeExercise t p day i =
                Inr (True, p\<lparr>weeklyPlan := (weeklyPlan p)(toLowerCase day \<mapsto>
                                 take k xs @ drop (Suc k) xs),
                              lastModified := Some t\<rparr>)))"
proof (intro conjI impI)
  assume "toLowerCase day \<notin> set days"
  then show "removeExercise t p day i = Inr (False, p)"
    by (simp add: removeExercise_def Let_def)
next
  assume a: "toLowerCase day \<in> set days \<and> weeklyPlan p (toLowerCase day) = Some xs
        \<and> i \<notin> ex_id ` set xs"
  then have "findIndex (\<lambda>ex. ex_id ex = i) xs = - 1"
    unfolding findIndex_def by (intro findIndex_from_absent) auto
  with a show "removeExercise t p day i = Inr (False, p)"
    by (simp add: removeExercise_def Let_def)
next
  assume a: "toLowerCase day \<in> set days \<and> weeklyPlan p (toLowerCase day) = Some xs
        \<and> i \<in> ex_id ` set xs"
  then have "\<exists>x \<in> set xs. ex_id x = i" by auto
  from findIndex_from_present [OF this, of 0] obtain k where k: "k < length xs"
    "findIndex_from 0 (\<lambda>ex. ex_id ex = i) xs = int k" "ex_id (xs ! k) = i"
    "\<forall>j < k. ex_id (xs ! j) \<noteq> i"
    by auto
  have "removeExercise t p day i =
      Inr (True, p\<lparr>weeklyPlan := (weeklyPlan p)(toLowerCase day \<mapsto> take k xs @ drop (Suc k) xs),
                    lastModified := Some t\<rparr>)"
    using a k(1,2) by (simp add: removeExercise_def Let_def findIndex_def splice_one_nat)
  with k show "\<exists>k < length xs. ex_id (xs ! k) = i \<and> (\<forall>j < k. ex_id (xs ! j) \<noteq> i)
            \<and> removeExercise t p day i =
                Inr (True, p\<lparr>weeklyPlan := (weeklyPlan p)(toLowerCase day \<mapsto>
                                 take k xs @ drop (Suc k) xs),
                              lastModified := Some t\<rparr>)"
    by blast
qed

theorem C6_remove_exercise_witness:
  "toLowerCase ''funday'' \<notin> set days
   \<and> removeExercise ''t'' (loadWorkoutPlan None) ''funday'' ''a'' = Inr (False, loadWorkoutPlan None)
   \<and> ''zzz'' \<notin> ex_id ` set [one_done, one_open]
   \<and> removeExercise ''t''
        ((loadWorkoutPlan None)\<lparr>weeklyPlan := (weeklyPlan (loadWorkoutPlan None))
            (''monday'' \<mapsto> [one_done, one_open])\<rparr>) ''monday'' ''zzz'' =
       Inr (False, (loadWorkoutPlan None)\<lparr>weeklyPlan := (weeklyPlan (loadWorkoutPlan None))
            (''monday'' \<mapsto> [one_done, one_open])\<rparr>)
   \<and> ''b'' \<in> ex_id ` set [one_done, one_open]
   \<and> removeExercise ''t''
        ((loadWorkoutPlan None)\<lparr>weeklyPlan := (weeklyPlan (loadWorkoutPlan None))
            (''monday'' \<mapsto> [one_done, one_open])\<rparr>) ''monday'' ''b'' =
       Inr (True, (loadWorkoutPlan None)\<lparr>weeklyPlan := (weeklyPlan (loadWorkoutPlan None))
            (''monday'' \<mapsto> [one_done]), lastModified := Some ''t''\<rparr>)"
proof -
  let ?p = "(loadWorkoutPlan None)\<lparr>weeklyPlan := (weeklyPlan (loadWorkoutPlan None))
            (''monday'' \<mapsto> [one_done, one_open])\<rparr>"
  have f: "toLowerCase ''funday'' \<notin> set days"
    by (simp add: days_def toLowerCase_def lower_char_def Let_def)
  have m: "toLowerCase ''monday'' = ''monday''" "''monday'' \<in> set days"
    by (simp_all add: days_lower days_def)
  have w: "weeklyPlan ?p (toLowerCase ''monday'') = Some [one_done, one_open]"
    by (simp add: m)
  have z: "''zzz'' \<notin> ex_id ` set [one_done, one_open]"
    by (simp add: one_done_def one_open_def)
  have b: "''b'' \<in> ex_id ` set [one_done, one_open]"
    by (simp add: one_done_def one_open_def)
  have md: "toLowerCase ''monday'' \<in> set days"
    by (simp add: m)
  have r1: "removeExercise ''t'' (loadWorkoutPlan None) ''funday'' ''a'' =
      Inr (False, loadWorkoutPlan None)"
    using C6_remove_exercise [of "''funday''" "''t''" "loadWorkoutPlan None" "''a''" "[]"] f
    by blast
  have r2: "removeExercise ''t'' ?p ''monday'' ''zzz'' = Inr (False, ?p)"
    using C6_remove_exercise [of "''monday''" "''t''" ?p "''zzz''" "[one_done, one_open]"]
      md w z by blast
  have "\<exists>k < length [one_done, one_open]. ex_id ([one_done, one_open] ! k) = ''b''
      \<and> (\<forall>j < k. ex_id ([one_done, one_open] ! j) \<noteq> ''b'')
      \<and> removeExercise ''t'' ?p ''monday'' ''b'' =
       Inr (True, ?p\<lparr>weeklyPlan := (weeklyPlan ?p)(toLowerCase ''monday'' \<mapsto>
             take k [one_done, one_open] @ drop (Suc k) [one_done, one_open]),
           lastModified := Some ''t''\<rparr>)"
    using C6_remove_exercise [of "''monday''" "''t''" ?p "''b''" "[one_done, one_open]"]
      md w b by blast
  then obtain k where k: "k < length [one_done, one_open]"
    "ex_id ([one_done, one_open] ! k) = ''b''"
    "removeExercise ''t'' ?p ''monday'' ''b'' =
       Inr (True, ?p\<lparr>weeklyPlan := (weeklyPlan ?p)(toLowerCase ''monday'' \<mapsto>
             take k [one_done, one_open] @ drop (Suc k) [one_done, one_open]),
           lastModified := Some ''t''\<rparr>)"
    by blast
  have "k = 1"
    using k(1,2) by (cases k) (auto simp: one_done_def one_open_def)
  then have r3: "removeExercise ''t'' ?p ''monday'' ''b'' =
       Inr (True, (loadWorkoutPlan None)\<lparr>weeklyPlan := (weeklyPlan (loadWorkoutPlan None))
            (''monday'' \<mapsto> [one_done]), lastModified := Some ''t''\<rparr>)"
    using k(3) by (simp add: m)
  show ?thesis
    using f z b r1 r2 r3 by simp
qed

text \<open>
  C7: \<open>addExercise\<close> reports the first failing check in the order name, sets, reps,
  day, with the plan unchanged, and it returns a failure exactly when one of the four
  checks fails.
\<close>

theorem C7_validation_order:
  "(\<not> isNotEmpty nm \<longrightarrow>
      addExercise toStr newId t1 t2 p day nm s r =
        Inr (Failure ''Please enter an exercise name'', p))
   \<and> (isNotEmpty nm \<and> \<not> isPositiveNumber s \<longrightarrow>
      addExercise toStr newId t1 t2 p day nm s r =
        Inr (Failure ''Sets must be a positive number'', p))
   \<and> (isNotEmpty nm \<and> isPositiveNumber s \<and> \<not> isPositiveNumber r \<longrightarrow>
      addExercise toStr newId t1 t2 p day nm s r =
        Inr (Failure ''Reps must be a positive number'', p))
   \<and> (isNotEmpty nm \<and> isPositiveNumber s \<and> isPositiveNumber r
        \<and> toLowerCase day \<notin> set days \<longrightarrow>
      addExercise toStr newId t1 t2 p day nm s r =
        Inr (Failure ''Please select a valid day of the week'', p))
   \<and> ((\<exists>err p'. addExercise toStr newId t1 t2 p day nm s r = Inr (Failure err, p')) \<longleftrightarrow>
        (\<not> isNotEmpty nm \<or> \<not> isPositiveNumber s \<or> \<not> isPositiveNumber r
          \<or> toLowerCase day \<notin> set days))"
  by (auto simp: addExercise_def validateExerciseInput_def Let_def
      split: jsval.splits option.splits)

theorem C7_validation_order_witness:
  "\<not> isNotEmpty (JString ''  '') \<and> \<not> isPositiveNumber (JString ''abc'')
   \<and> \<not> isPositiveNumber (JNumber (Finite (- 1))) \<and> toLowerCase ''funday'' \<notin> set days
   \<and> isNotEmpty (JString ''Squats'') \<and> isPositiveNumber (JNumber (Finite 3))
   \<and> addExercise (\<lambda>q. []) ''id'' ''t1'' ''t2'' (loadWorkoutPlan None) ''funday''
         (JString ''  '') (JString ''abc'') (JNumber (Finite (- 1))) =
       Inr (Failure ''Please enter an exercise name'', loadWorkoutPlan None)
   \<and> addExercise (\<lambda>q. []) ''id'' ''t1'' ''t2'' (loadWorkoutPlan None) ''funday''
         (JString ''Squats'') (JString ''abc'') (JNumber (Finite (- 1))) =
       Inr (Failure ''Sets must be a positive number'', loadWorkoutPlan None)
   \<and> addExercise (\<lambda>q. []) ''id'' ''t1'' ''t2'' (loadWorkoutPlan None) ''funday''
         (JString ''Squats'') (JNumber (Finite 3)) (JNumber (Finite (- 1))) =
       Inr (Failure ''Reps must be a positive number'', loadWorkoutPlan None)
   \<and> addExercise (\<lambda>q. []) ''id'' ''t1'' ''t2'' (loadWorkoutPlan None) ''funday''
         (JString ''Squats'') (JNumber (Finite 3)) (JNumber (Finite 3)) =
       Inr (Failure ''Please select a valid day of the week'', loadWorkoutPlan None)"
proof -
  have n0: "\<not> isNotEmpty (JString ''  '')"
    by (simp add: isNotEmpty_def trim_def is_whitespace_def)
  have n1: "isNotEmpty (JString ''Squats'')"
    by (simp add: isNotEmpty_def trim_def is_whitespace_def)
  have s0: "\<not> isPositiveNumber (JString ''abc'')"
    by (simp add: isPositiveNumber_def parseFloat_def parseFloat_string_def trimStart_def
        strip_sign_def is_whitespace_def is_digit_def fraction_part_def isNaN_def Let_def)
  have r0: "\<not> isPositiveNumber (JNumber (Finite (- 1)))"
    by (simp add: isPositiveNumber_def parseFloat_def jgt_def)
  have s1: "isPositiveNumber (JNumber (Finite 3))"
    by (simp add: isPositiveNumber_def parseFloat_def jgt_def isNaN_def)
  have d0: "toLowerCase ''funday'' \<notin> set days"
    by (simp add: days_def toLowerCase_def lower_char_def Let_def)
  note c = C7_validation_order [of _ "\<lambda>q. []" "''id''" "''t1''" "''t2''" "loadWorkoutPlan None"
      "''funday''"]
  have a1: "addExercise (\<lambda>q. []) ''id'' ''t1'' ''t2'' (loadWorkoutPlan None) ''funday''
         (JString ''  '') (JString ''abc'') (JNumber (Finite (- 1))) =
       Inr (Failure ''Please enter an exercise name'', loadWorkoutPlan None)"
    using c [of "JString ''  ''" "JString ''abc''" "JNumber (Finite (- 1))"] n0 by blast
  have a2: "addExercise (\<lambda>q. []) ''id'' ''t1'' ''t2'' (loadWorkoutPlan None) ''funday''
         (JString ''Squats'') (JString ''abc'') (JNumber (Finite (- 1))) =
       Inr (Failure ''Sets must be a positive number'', loadWorkoutPlan None)"
    using c [of "JString ''Squats''" "JString ''abc''" "JNumber (Finite (- 1))"] n1 s0 by blast
  have a3: "addExercise (\<lambda>q. []) ''id'' ''t1'' ''t2'' (loadWorkoutPlan None) ''funday''
         (JString ''Squats'') (JNumber (Finite 3)) (JNumber (Finite (- 1))) =
       Inr (Failure ''Reps must be a positive number'', loadWorkoutPlan None)"
    using c [of "JString ''Squats''" "JNumber (Finite 3)" "JNumber (Finite (- 1))"] n1 s1 r0
    by blast
  have a4: "addExercise (\<lambda>q. []) ''id'' ''t1'' ''t2'' (loadWorkoutPlan None) ''funday''
         (JString ''Squats'') (JNumber (Finite 3)) (JNumber (Finite 3)) =
       Inr (Failure ''Please select a valid day of the week'', loadWorkoutPlan None)"
    using c [of "JString ''Squats''" "JNumber (Finite 3)" "JNumber (Finite 3)"] n1 s1 d0
    by blast
  show ?thesis
    using n0 n1 s0 r0 s1 d0 a1 a2 a3 a4 by blast
qed

end
